theory Spec2Isabelle
  imports Complex_Main "HOL-Library.AList" "HOL-Library.Log_Nat"
begin

section \<open>Values of the host language\<close>

text \<open>
  The recommendation core of \<^verbatim>\<open>utils/aiService.js\<close> is embedded function by function.
  A call that throws is a value \<open>Inl e\<close>; an \<^verbatim>\<open>async\<close> method that rejects is modelled the
  same way. An absent property (\<^verbatim>\<open>undefined\<close>) of a collection or string type is \<open>None\<close>.

  Numbers are IEEE binary64 values in the source. In the energy calculation they are
  idealised as real numbers, and the one non-finite value that calculation can produce
  from finite input, \<^verbatim>\<open>NaN\<close>, is \<open>None\<close> of \<open>real option\<close>. \<^verbatim>\<open>Math.round\<close> rounds to
  the nearest integer with ties towards plus infinity, which is \<open>\<lfloor>x + 1/2\<rfloor>\<close>.
  The comparison of consumed against target calories decides a rule at a threshold, so
  there the numbers are binary64 values with the rounding of the product written out.
\<close>

datatype error = TypeError | Error string

type_synonym number = "real option"

definition roundHalfUp :: "real \<Rightarrow> int" where
  "roundHalfUp r = floor (r + 1 / 2)"

definition Math_round :: "number \<Rightarrow> int option" where
  "Math_round x = (case x of None \<Rightarrow> None | Some r \<Rightarrow> Some (roundHalfUp r))"

definition array_includes :: "'a list \<Rightarrow> 'a \<Rightarrow> bool" where
  "array_includes xs x = (x \<in> set xs)"

subsection \<open>Binary64 numbers\<close>

text \<open>
  \<open>Finite m e\<close> stands for the number \<open>m * 2\<^sup>e\<close>; the sign of a zero is not kept,
  since no comparison sees it. \<open>round64 p q x\<close> is the binary64 value nearest to
  \<open>(p / q) * 2\<^sup>x\<close> for \<open>q > 0\<close>, ties to the even significand: the unit in the last
  place has the exponent of the binade of the exact value minus 52, or \<open>-1074\<close> for a
  subnormal result, and what rounds to \<open>2 ^ 1024\<close> or beyond is an infinity. A decimal
  literal \<open>n / 10 ^ k\<close> of the source or of a JSON document denotes
  \<open>round64 n (10 ^ k) 0\<close>, and the product of two finite numbers is the exact product
  rounded. \<open>value64 m e\<close> is the real number that \<open>Finite m e\<close> stands for.
\<close>

datatype double = Finite int int | PosInfinity | NegInfinity | NaN

definition shift :: "int \<Rightarrow> int \<Rightarrow> int \<Rightarrow> int \<times> int" where
  "shift p q k = (if 0 \<le> k then (p * 2 ^ nat k, q) else (p, q * 2 ^ nat (- k)))"

definition roundHalfEven :: "int \<Rightarrow> int \<Rightarrow> int" where
  "roundHalfEven n d =
     (let f = n div d; r = n mod d
      in if 2 * r < d then f else if d < 2 * r then f + 1 else if even f then f else f + 1)"

definition floorLog2 :: "int \<Rightarrow> int \<Rightarrow> int" where
  "floorLog2 p q =
     (let b = bitlen \<bar>p\<bar> - bitlen q
      in case shift \<bar>p\<bar> q (- b) of (n, d) \<Rightarrow> if d \<le> n then b else b - 1)"

definition round64 :: "int \<Rightarrow> int \<Rightarrow> int \<Rightarrow> double" where
  "round64 p q x =
     (if p = 0 then Finite 0 0
      else let e = max (floorLog2 p q + x - 52) (- 1074);
               n = (case shift p q (x - e) of (n, d) \<Rightarrow> roundHalfEven n d)
           in if 1024 < bitlen \<bar>n\<bar> + e
              then (if 0 < p then PosInfinity else NegInfinity)
              else Finite n e)"

definition signOf :: "double \<Rightarrow> int" where
  "signOf a = (case a of Finite m e \<Rightarrow> sgn m | PosInfinity \<Rightarrow> 1 | NegInfinity \<Rightarrow> - 1 | NaN \<Rightarrow> 0)"

definition multiply :: "double \<Rightarrow> double \<Rightarrow> double" where
  "multiply a b =
     (case (a, b) of
        (NaN, _) \<Rightarrow> NaN
      | (_, NaN) \<Rightarrow> NaN
      | (Finite m e, Finite m' e') \<Rightarrow> round64 (m * m') 1 (e + e')
      | _ \<Rightarrow> (if signOf a * signOf b = 0 then NaN
               else if 0 < signOf a * signOf b then PosInfinity else NegInfinity))"

definition greaterThan64 :: "double \<Rightarrow> double \<Rightarrow> bool" where
  "greaterThan64 a b =
     (case (a, b) of
        (NaN, _) \<Rightarrow> False
      | (_, NaN) \<Rightarrow> False
      | (Finite m e, Finite m' e') \<Rightarrow>
          m' * 2 ^ nat (e' - min e e') < m * 2 ^ nat (e - min e e')
      | (PosInfinity, PosInfinity) \<Rightarrow> False
      | (PosInfinity, _) \<Rightarrow> True
      | (_, NegInfinity) \<Rightarrow> (a \<noteq> NegInfinity)
      | _ \<Rightarrow> False)"

definition value64 :: "int \<Rightarrow> int \<Rightarrow> real" where
  "value64 m e = real_of_int m * 2 powr real_of_int e"

text \<open>
  A numeric property of a progress entry holds a number, \<^verbatim>\<open>null\<close> or nothing. In
  arithmetic and in a comparison \<^verbatim>\<open>null\<close> converts to zero and \<^verbatim>\<open>undefined\<close> to
  \<^verbatim>\<open>NaN\<close>.
\<close>

datatype field = Absent | Null | Value double

definition ToNumber :: "field \<Rightarrow> double" where
  "ToNumber v = (case v of Absent \<Rightarrow> NaN | Null \<Rightarrow> Finite 0 0 | Value d \<Rightarrow> d)"

section \<open>Data model\<close>

text \<open>
  Of a preferences object the code reads \<^verbatim>\<open>dietaryRestrictions\<close> and destructures
  \<^verbatim>\<open>cuisinePreferences\<close>; no other property is ever looked at. The three numeric
  fields of a profile are taken as present and finite.
\<close>

record Preferences =
  dietaryRestrictions :: "string list option"
  cuisinePreferences :: "string list option"

record Profile =
  age :: real
  weight :: real
  height :: real
  gender :: "string option"
  activityLevel :: "string option"
  fitnessGoals :: "string list option"
  preferences :: "Preferences option"

record ProgressEntry =
  workoutCompleted :: "bool option"
  caloriesConsumed :: field
  targetCalories :: field

record Recommendation =
  rtype :: string
  message :: string
  action :: string

record Recommendations =
  workout :: "Recommendation list"
  nutrition :: "Recommendation list"
  lifestyle :: "Recommendation list"

record Macros =
  protein :: "int option"
  carbs :: "int option"
  fats :: "int option"

record NutritionTargets =
  dailyCalories :: "int option"
  macros :: Macros

record MealDefinition =
  name :: string
  calories :: nat
  mealProtein :: nat
  mealCarbs :: nat
  mealFats :: nat
  ingredients :: "string list"
  prepTime :: nat
  vegan :: bool
  glutenFree :: bool

section \<open>Recommendation sub-generators\<close>

definition push :: "'a list \<Rightarrow> 'a \<Rightarrow> 'a list" where
  "push xs x = xs @ [x]"

definition motivationRec :: Recommendation where
  "motivationRec =
     \<lparr>rtype = ''motivation'',
      message = ''You missed yesterday's workout. Let's get back on track with a lighter session today!'',
      action = ''Start with a 20-minute beginner workout''\<rparr>"

definition cardioRec :: Recommendation where
  "cardioRec =
     \<lparr>rtype = ''cardio'',
      message = ''Add 15 minutes of HIIT training to boost fat burning'',
      action = ''Try interval running or cycling''\<rparr>"

definition strengthRec :: Recommendation where
  "strengthRec =
     \<lparr>rtype = ''strength'',
      message = ''Focus on progressive overload this week'',
      action = ''Increase weights by 5% or add 2 more reps''\<rparr>"

definition calorieControlRec :: Recommendation where
  "calorieControlRec =
     \<lparr>rtype = ''calorie_control'',
      message = ''You exceeded your calorie target yesterday. Let's focus on portion control today.'',
      action = ''Try using smaller plates and eating slowly''\<rparr>"

definition proteinRec :: Recommendation where
  "proteinRec =
     \<lparr>rtype = ''protein'',
      message = ''Ensure adequate protein intake with plant-based sources'',
      action = ''Include lentils, quinoa, or Greek yogurt in your meals''\<rparr>"

definition sleepRec :: Recommendation where
  "sleepRec =
     \<lparr>rtype = ''sleep'',
      message = ''Quality sleep is crucial for recovery and weight management'',
      action = ''Aim for 7-9 hours of sleep tonight''\<rparr>"

definition hydrationRec :: Recommendation where
  "hydrationRec =
     \<lparr>rtype = ''hydration'',
      message = ''Stay hydrated to support your metabolism and workout performance'',
      action = ''Drink at least 8 glasses of water today''\<rparr>"

text \<open>
  \<^verbatim>\<open>currentProgress && currentProgress.length > 0\<close> is false for an absent list and for
  an empty one; \<^verbatim>\<open>fitnessGoals.includes\<close> on an absent \<^verbatim>\<open>fitnessGoals\<close> throws a
  TypeError, after the progress rule has run.
\<close>

definition generateWorkoutRecommendations ::
  "Profile \<Rightarrow> ProgressEntry list option \<Rightarrow> error + Recommendation list" where
  "generateWorkoutRecommendations userProfile currentProgress =
     (let recommendations = [];
          recommendations =
            (case currentProgress of
               Some (recentProgress # _) \<Rightarrow>
                 if workoutCompleted recentProgress = Some False
                 then push recommendations motivationRec
                 else recommendations
             | _ \<Rightarrow> recommendations)
      in case fitnessGoals userProfile of
           None \<Rightarrow> Inl TypeError
         | Some goals \<Rightarrow>
             (let recommendations =
                    (if array_includes goals ''weight_loss''
                     then push recommendations cardioRec else recommendations);
                  recommendations =
                    (if array_includes goals ''muscle_gain''
                     then push recommendations strengthRec else recommendations)
              in Inr recommendations))"

text \<open>
  \<^verbatim>\<open>recentProgress.caloriesConsumed > recentProgress.targetCalories * 1.2\<close>: both
  operands are converted to numbers, the product with the literal is rounded to
  binary64, and a comparison with \<^verbatim>\<open>NaN\<close> is false.
  \<^verbatim>\<open>preferences.dietaryRestrictions\<close> on an absent \<^verbatim>\<open>preferences\<close> throws; an absent
  \<^verbatim>\<open>dietaryRestrictions\<close> is falsy and the conjunction stops there.
\<close>

definition exceedsTarget :: "ProgressEntry \<Rightarrow> bool" where
  "exceedsTarget recentProgress =
     greaterThan64 (ToNumber (caloriesConsumed recentProgress))
       (multiply (ToNumber (targetCalories recentProgress)) (round64 12 10 0))"

definition generateNutritionRecommendations ::
  "Profile \<Rightarrow> ProgressEntry list option \<Rightarrow> error + Recommendation list" where
  "generateNutritionRecommendations userProfile currentProgress =
     (let recommendations = [];
          recommendations =
            (case currentProgress of
               Some (recentProgress # _) \<Rightarrow>
                 if exceedsTarget recentProgress
                 then push recommendations calorieControlRec
                 else recommendations
             | _ \<Rightarrow> recommendations)
      in case preferences userProfile of
           None \<Rightarrow> Inl TypeError
         | Some prefs \<Rightarrow>
             (case dietaryRestrictions prefs of
                None \<Rightarrow> Inr recommendations
              | Some restrictions \<Rightarrow>
                  if array_includes restrictions ''vegetarian''
                  then Inr (push recommendations proteinRec)
                  else Inr recommendations))"

definition generateLifestyleRecommendations ::
  "Profile \<Rightarrow> ProgressEntry list option \<Rightarrow> Recommendation list" where
  "generateLifestyleRecommendations userProfile currentProgress =
     (let recommendations = [];
          recommendations = push recommendations sleepRec;
          recommendations = push recommendations hydrationRec
      in recommendations)"

text \<open>
  The three properties of the result are computed in source order inside
  \<^verbatim>\<open>try\<close>; whatever is thrown is replaced by one generic error.
\<close>

definition getPersonalizedRecommendations ::
  "Profile \<Rightarrow> ProgressEntry list option \<Rightarrow> error + Recommendations" where
  "getPersonalizedRecommendations userProfile currentProgress =
     (case generateWorkoutRecommendations userProfile currentProgress of
        Inl _ \<Rightarrow> Inl (Error ''Failed to generate AI recommendations'')
      | Inr w \<Rightarrow>
          (case generateNutritionRecommendations userProfile currentProgress of
             Inl _ \<Rightarrow> Inl (Error ''Failed to generate AI recommendations'')
           | Inr n \<Rightarrow>
               Inr \<lparr>workout = w, nutrition = n,
                    lifestyle = generateLifestyleRecommendations userProfile currentProgress\<rparr>))"

section \<open>Energy needs\<close>

text \<open>
  \<^verbatim>\<open>activityFactors\<close> is an object literal, so \<^verbatim>\<open>activityFactors[activityLevel]\<close>
  finds its four own properties and, failing those, walks the prototype chain to
  \<^verbatim>\<open>Object.prototype\<close>. The members found there are functions (for \<^verbatim>\<open>__proto__\<close>, the
  prototype object itself): truthy values that multiplication converts to \<^verbatim>\<open>NaN\<close>.
  Any other key yields \<^verbatim>\<open>undefined\<close>. An absent \<^verbatim>\<open>activityLevel\<close> is looked up
  under the key \<^verbatim>\<open>"undefined"\<close>.
\<close>

datatype property = Undefined | Number real | Inherited

definition objectPrototypeMembers :: "string list" where
  "objectPrototypeMembers =
     [''constructor'', ''__defineGetter__'', ''__defineSetter__'', ''hasOwnProperty'',
      ''__lookupGetter__'', ''__lookupSetter__'', ''isPrototypeOf'', ''propertyIsEnumerable'',
      ''toString'', ''valueOf'', ''__proto__'', ''toLocaleString'']"

definition activityFactors :: "string \<Rightarrow> property" where
  "activityFactors key =
     (if key = ''sedentary'' then Number 1.2
      else if key = ''lightly_active'' then Number 1.375
      else if key = ''moderately_active'' then Number 1.55
      else if key = ''very_active'' then Number 1.725
      else if key \<in> set objectPrototypeMembers then Inherited
      else Undefined)"

definition propertyKey :: "string option \<Rightarrow> string" where
  "propertyKey k = (case k of None \<Rightarrow> ''undefined'' | Some s \<Rightarrow> s)"

definition orElse :: "property \<Rightarrow> real \<Rightarrow> property" where
  "orElse v d =
     (case v of
        Undefined \<Rightarrow> Number d
      | Number r \<Rightarrow> if r = 0 then Number d else Number r
      | Inherited \<Rightarrow> Inherited)"

definition times :: "real \<Rightarrow> property \<Rightarrow> number" where
  "times x v = (case v of Number r \<Rightarrow> Some (x * r) | _ \<Rightarrow> None)"

definition calculateNutritionNeeds :: "Profile \<Rightarrow> error + NutritionTargets" where
  "calculateNutritionNeeds userProfile =
     (let bmr =
            (if gender userProfile = Some ''male''
             then 88.362 + (13.397 * weight userProfile) + (4.799 * height userProfile)
                    - (5.677 * age userProfile)
             else 447.593 + (9.247 * weight userProfile) + (3.098 * height userProfile)
                    - (4.330 * age userProfile));
          tdee = times bmr (orElse (activityFactors (propertyKey (activityLevel userProfile))) 1.2)
      in case fitnessGoals userProfile of
           None \<Rightarrow> Inl TypeError
         | Some goals \<Rightarrow>
             (let targetCalories =
                    (if array_includes goals ''weight_loss''
                     then map_option (\<lambda>t. t - 500) tdee
                     else if array_includes goals ''muscle_gain''
                     then map_option (\<lambda>t. t + 300) tdee
                     else tdee)
              in Inr \<lparr>dailyCalories = Math_round targetCalories,
                      macros =
                        \<lparr>protein = Math_round (map_option (\<lambda>t. t * 0.25 / 4) targetCalories),
                         carbs = Math_round (map_option (\<lambda>t. t * 0.45 / 4) targetCalories),
                         fats = Math_round (map_option (\<lambda>t. t * 0.30 / 9) targetCalories)\<rparr>\<rparr>))"

section \<open>Meal plan\<close>

definition mealDatabase :: "(string \<times> MealDefinition list) list" where
  "mealDatabase =
     [(''breakfast'',
       [\<lparr>name = ''Overnight Oats with Berries'', calories = 350, mealProtein = 15,
         mealCarbs = 55, mealFats = 8,
         ingredients = [''oats'', ''milk'', ''berries'', ''honey''],
         prepTime = 5, vegan = False, glutenFree = True\<rparr>,
        \<lparr>name = ''Avocado Toast'', calories = 320, mealProtein = 12,
         mealCarbs = 35, mealFats = 18,
         ingredients = [''whole grain bread'', ''avocado'', ''eggs'', ''tomato''],
         prepTime = 10, vegan = False, glutenFree = False\<rparr>]),
      (''lunch'',
       [\<lparr>name = ''Grilled Chicken Salad'', calories = 450, mealProtein = 35,
         mealCarbs = 25, mealFats = 22,
         ingredients = [''chicken breast'', ''mixed greens'', ''olive oil'', ''vegetables''],
         prepTime = 15, vegan = False, glutenFree = True\<rparr>,
        \<lparr>name = ''Quinoa Buddha Bowl'', calories = 420, mealProtein = 18,
         mealCarbs = 52, mealFats = 16,
         ingredients = [''quinoa'', ''chickpeas'', ''vegetables'', ''tahini''],
         prepTime = 20, vegan = True, glutenFree = True\<rparr>]),
      (''dinner'',
       [\<lparr>name = ''Baked Salmon with Vegetables'', calories = 480, mealProtein = 40,
         mealCarbs = 20, mealFats = 25,
         ingredients = [''salmon'', ''broccoli'', ''sweet potato'', ''olive oil''],
         prepTime = 25, vegan = False, glutenFree = True\<rparr>])]"

text \<open>The callback of \<^verbatim>\<open>filter\<close>, with its two early returns.\<close>

definition keepMeal :: "string list \<Rightarrow> MealDefinition \<Rightarrow> bool" where
  "keepMeal restrictions meal =
     (if array_includes restrictions ''vegan'' \<and> \<not> vegan meal then False
      else if array_includes restrictions ''gluten_free'' \<and> \<not> glutenFree meal then False
      else True)"

text \<open>
  The parameter default \<^verbatim>\<open>preferences = {}\<close> and the destructuring defaults
  \<^verbatim>\<open>= []\<close> apply to an absent value. The energy needs are computed, and may throw,
  before the catalogue is touched. \<^verbatim>\<open>Object.keys(mealDatabase).forEach\<close> visits the
  slots in definition order and each assignment to \<^verbatim>\<open>filteredMeals[mealType]\<close> adds the
  property at the end, or overwrites it in place.
\<close>

definition generateMealPlan ::
  "Profile \<Rightarrow> Preferences option \<Rightarrow> error + (string \<times> MealDefinition list) list" where
  "generateMealPlan userProfile preferencesArg =
     (let prefs =
            (case preferencesArg of
               None \<Rightarrow> \<lparr>dietaryRestrictions = None, cuisinePreferences = None\<rparr>
             | Some p \<Rightarrow> p);
          restrictions = (case dietaryRestrictions prefs of None \<Rightarrow> [] | Some d \<Rightarrow> d);
          cuisines = (case cuisinePreferences prefs of None \<Rightarrow> [] | Some c \<Rightarrow> c)
      in case calculateNutritionNeeds userProfile of
           Inl e \<Rightarrow> Inl e
         | Inr targets \<Rightarrow>
             Inr (foldl
                   (\<lambda>filteredMeals (mealType, meals).
                      AList.update mealType (filter (keepMeal restrictions) meals) filteredMeals)
                   [] mealDatabase))"


section \<open>The documented behaviour, as definitions\<close>

text \<open>
  The definitions of this section follow the wording of the specification, not the code;
  the theorems below compare the two. Absent collections are read as empty ones.
\<close>

definition progressList :: "ProgressEntry list option \<Rightarrow> ProgressEntry list" where
  "progressList currentProgress = (case currentProgress of None \<Rightarrow> [] | Some es \<Rightarrow> es)"

definition restrictionList :: "Preferences \<Rightarrow> string list" where
  "restrictionList prefs = (case dietaryRestrictions prefs of None \<Rightarrow> [] | Some d \<Rightarrow> d)"

definition requested :: "Preferences option \<Rightarrow> string list" where
  "requested preferencesArg =
     (case preferencesArg of None \<Rightarrow> [] | Some prefs \<Rightarrow> restrictionList prefs)"

definition spec_workoutRules :: "ProgressEntry list \<Rightarrow> string list \<Rightarrow> Recommendation list" where
  "spec_workoutRules es goals =
     (if es \<noteq> [] \<and> workoutCompleted (hd es) = Some False then [motivationRec] else [])
     @ (if ''weight_loss'' \<in> set goals then [cardioRec] else [])
     @ (if ''muscle_gain'' \<in> set goals then [strengthRec] else [])"

definition spec_nutritionRules :: "ProgressEntry list \<Rightarrow> string list \<Rightarrow> Recommendation list" where
  "spec_nutritionRules es restrictions =
     (if es \<noteq> [] \<and> exceedsTarget (hd es) then [calorieControlRec] else [])
     @ (if ''vegetarian'' \<in> set restrictions then [proteinRec] else [])"

definition spec_keep :: "string list \<Rightarrow> MealDefinition \<Rightarrow> bool" where
  "spec_keep restrictions meal =
     (\<not> (''vegan'' \<in> set restrictions \<and> vegan meal = False)
      \<and> \<not> (''gluten_free'' \<in> set restrictions \<and> glutenFree meal = False))"

definition spec_bmr :: "Profile \<Rightarrow> real" where
  "spec_bmr p =
     (if gender p = Some ''male''
      then 88.362 + 13.397 * weight p + 4.799 * height p - 5.677 * age p
      else 447.593 + 9.247 * weight p + 3.098 * height p - 4.330 * age p)"

definition spec_activityFactor :: "string option \<Rightarrow> real" where
  "spec_activityFactor level =
     (if level = Some ''sedentary'' then 1.2
      else if level = Some ''lightly_active'' then 1.375
      else if level = Some ''moderately_active'' then 1.55
      else if level = Some ''very_active'' then 1.725
      else 1.2)"

definition spec_targetCalories :: "Profile \<Rightarrow> string list \<Rightarrow> real" where
  "spec_targetCalories p goals =
     (let tdee = spec_bmr p * spec_activityFactor (activityLevel p)
      in if ''weight_loss'' \<in> set goals then tdee - 500
         else if ''muscle_gain'' \<in> set goals then tdee + 300
         else tdee)"

text \<open>The ranges that \<^verbatim>\<open>validateProfile\<close> enforces on a submitted profile.\<close>

definition inDocumentedRanges :: "Profile \<Rightarrow> bool" where
  "inDocumentedRanges p =
     (13 \<le> age p \<and> age p \<le> 120 \<and> 30 \<le> weight p \<and> weight p \<le> 300
      \<and> 100 \<le> height p \<and> height p \<le> 250
      \<and> gender p \<in> {Some ''male'', Some ''female'', Some ''other''}
      \<and> activityLevel p \<in> {Some ''sedentary'', Some ''lightly_active'',
                             Some ''moderately_active'', Some ''very_active''})"

subsection \<open>Sample data\<close>

text \<open>The two profiles of \<^verbatim>\<open>scripts/seed.js\<close>, and profiles at the edge of the ranges.\<close>

definition john :: Profile where
  "john =
     \<lparr>age = 28, weight = 75, height = 175, gender = Some ''male'',
      activityLevel = Some ''moderately_active'',
      fitnessGoals = Some [''weight_loss'', ''muscle_gain''],
      preferences = Some \<lparr>dietaryRestrictions = Some [], cuisinePreferences = None\<rparr>\<rparr>"

definition jane :: Profile where
  "jane =
     \<lparr>age = 32, weight = 60, height = 165, gender = Some ''female'',
      activityLevel = Some ''lightly_active'',
      fitnessGoals = Some [''endurance'', ''strength''],
      preferences = Some \<lparr>dietaryRestrictions = Some [''vegetarian''], cuisinePreferences = None\<rparr>\<rparr>"

definition lightest :: Profile where
  "lightest =
     \<lparr>age = 120, weight = 30, height = 100, gender = Some ''male'',
      activityLevel = Some ''sedentary'', fitnessGoals = Some [''weight_loss''],
      preferences = Some \<lparr>dietaryRestrictions = Some [], cuisinePreferences = None\<rparr>\<rparr>"

definition frail :: Profile where
  "frail =
     \<lparr>age = 119, weight = 31, height = 105, gender = Some ''male'',
      activityLevel = Some ''sedentary'', fitnessGoals = Some [''weight_loss''],
      preferences = Some \<lparr>dietaryRestrictions = Some [], cuisinePreferences = None\<rparr>\<rparr>"

definition overate :: ProgressEntry where
  "overate =
     \<lparr>workoutCompleted = Some False, caloriesConsumed = Value (Finite 2600 0),
      targetCalories = Value (Finite 2000 0)\<rparr>"





subsection \<open>The rounding gap between macros and calories\<close>

text \<open>
  With \<open>m = \<lfloor>18 t\<rfloor>\<close> for a calorie target \<open>t\<close>, the four rounded values are quotients
  of \<open>m\<close>, and \<open>kcalGap m\<close> is the energy of the macro grams minus the daily calories.
  It has period 4320 and is constant between two consecutive points where one of the
  quotients steps; \<open>scan\<close> walks those points through one period.
\<close>

definition kcalGap :: "int \<Rightarrow> int" where
  "kcalGap m =
     4 * ((m + 144) div 288) + 4 * ((m + 80) div 160) + 9 * ((m + 270) div 540)
       - (m + 9) div 18"

definition nextBreak :: "int \<Rightarrow> int" where
  "nextBreak lo =
     min (min (288 * ((lo + 144) div 288 + 1) - 144) (160 * ((lo + 80) div 160 + 1) - 80))
         (min (540 * ((lo + 270) div 540 + 1) - 270) (18 * ((lo + 9) div 18 + 1) - 9))"

function scan :: "int \<Rightarrow> bool" where
  "scan lo = (if 4320 \<le> lo then True else \<bar>kcalGap lo\<bar> \<le> 7 \<and> scan (nextBreak lo))"
  by pat_completeness auto
termination
proof (relation "measure (\<lambda>lo. nat (4320 - lo))")
  show "wf (measure (\<lambda>lo. nat (4320 - lo)))" by simp
next
  fix lo :: int
  assume less: "\<not> 4320 \<le> lo"
  have step: "a < n * (a div n + 1)" if "0 < n" for a n :: int
  proof -
    have "a mod n < n" using that by simp
    moreover have "n * (a div n) + a mod n = a" by simp
    moreover have "n * (a div n + 1) = n * (a div n) + n" by (simp add: algebra_simps)
    ultimately show ?thesis by linarith
  qed
  have "lo < nextBreak lo"
    using step[of 288 "lo + 144"] step[of 160 "lo + 80"]
          step[of 540 "lo + 270"] step[of 18 "lo + 9"]
    unfolding nextBreak_def by simp
  then show "(nextBreak lo, lo) \<in> measure (\<lambda>lo. nat (4320 - lo))"
    using less by simp
qed

declare scan.simps [simp del]

section \<open>Lifestyle recommendations\<close>

text \<open>
  Claim C7. For every profile and every progress list, present or absent,
  generateLifestyleRecommendations returns exactly two recommendations: the sleep
  recommendation first and the hydration recommendation second. The result does not
  depend on the input.
\<close>

theorem lifestyle_fixed_sequence:
  "generateLifestyleRecommendations userProfile currentProgress = [sleepRec, hydrationRec]
   \<and> map rtype (generateLifestyleRecommendations userProfile currentProgress)
       = [''sleep'', ''hydration'']
   \<and> length (generateLifestyleRecommendations userProfile currentProgress) = 2
   \<and> generateLifestyleRecommendations userProfile currentProgress
       = generateLifestyleRecommendations userProfile' currentProgress'"
  by (simp add: generateLifestyleRecommendations_def push_def sleepRec_def hydrationRec_def)

section \<open>Properties of the binary64 operations\<close>

text \<open>
  The comparison of two finite numbers is the order of the reals they stand for. A finite
  result of \<open>round64\<close> has a significand of at most 53 bits and an exponent in range, its
  unit in the last place is the one of the binade of the exact value, and it lies
  within half a unit of the exact value.
\<close>

lemma pow_nat_powr: "0 \<le> k \<Longrightarrow> (2::real) ^ nat k = 2 powr real_of_int k"
  by (simp add: powr_realpow[symmetric])



lemma roundHalfEven_nearest:
  assumes "0 < d"
  shows "\<bar>real_of_int (roundHalfEven n d) - real_of_int n / real_of_int d\<bar> \<le> (1 / 2 :: real)"
proof -
  define f where "f = n div d"
  define r where "r = n mod d"
  have n: "n = f * d + r" by (simp add: f_def r_def)
  have r: "0 \<le> r" "r < d" using assms by (simp_all add: r_def)
  have q: "real_of_int n / real_of_int d = real_of_int f + real_of_int r / (real_of_int d :: real)"
    using assms by (simp add: n field_simps)
  have cases: "roundHalfEven n d = f \<and> 2 * r \<le> d \<or> roundHalfEven n d = f + 1 \<and> d \<le> 2 * r"
    by (auto simp: roundHalfEven_def Let_def f_def r_def)
  have d: "(0::real) < real_of_int d" using assms by simp
  from cases show ?thesis
  proof
    assume c: "roundHalfEven n d = f \<and> 2 * r \<le> d"
    then have "real_of_int r / (real_of_int d :: real) \<le> 1 / 2"
      using d by (simp add: field_simps; linarith?)
    moreover have "0 \<le> real_of_int r / (real_of_int d :: real)" using r d by simp
    ultimately show ?thesis using c by (simp add: q)
  next
    assume c: "roundHalfEven n d = f + 1 \<and> d \<le> 2 * r"
    then have "1 / 2 \<le> real_of_int r / (real_of_int d :: real)"
      using d by (simp add: field_simps; linarith?)
    moreover have "real_of_int r / (real_of_int d :: real) < 1" using r d by simp
    ultimately show ?thesis using c by (simp add: q)
  qed
qed

lemma shift_value:
  assumes "0 < q" "shift p q k = (n, d)"
  shows "0 < d \<and> real_of_int n / real_of_int d = (real_of_int p / real_of_int q) * 2 powr real_of_int k"
proof (cases "0 \<le> k")
  case True
  then have "n = p * 2 ^ nat k" "d = q" using assms(2) by (simp_all add: shift_def)
  then show ?thesis using assms(1) True by (simp add: pow_nat_powr)
next
  case False
  then have nd: "n = p" "d = q * 2 ^ nat (- k)" using assms(2) by (simp_all add: shift_def)
  have "(2::real) ^ nat (- k) = 2 powr real_of_int (- k)" using False by (intro pow_nat_powr) simp
  then have "(2::real) ^ nat (- k) = 1 / 2 powr real_of_int k" by (simp add: powr_minus_divide)
  then show ?thesis using assms(1) nd by simp
qed

lemma floorLog2_bounds:
  assumes "p \<noteq> 0" "0 < q"
  shows "2 powr real_of_int (floorLog2 p q) \<le> \<bar>real_of_int p / real_of_int q\<bar>"
    and "\<bar>real_of_int p / real_of_int q :: real\<bar> < 2 powr real_of_int (floorLog2 p q + 1)"
proof -
  define P where "P = \<bar>p\<bar>"
  define b where "b = bitlen P - bitlen q"
  have P: "0 < P" using assms(1) by (simp add: P_def)
  have bl: "1 \<le> bitlen x" if "0 < x" for x
    using that bitlen_eq_zero_iff[of x] bitlen_nonneg[of x] by linarith
  have bnd: "2 powr real_of_int (bitlen x - 1) \<le> real_of_int x \<and> real_of_int x < 2 powr real_of_int (bitlen x)"
    if "0 < x" for x
  proof -
    have "2 ^ nat (bitlen x - 1) \<le> x" "x < 2 ^ nat (bitlen x)"
      using bitlen_bounds[OF that] by simp_all
    then have "real_of_int (2 ^ nat (bitlen x - 1)) \<le> real_of_int x"
              "real_of_int x < real_of_int (2 ^ nat (bitlen x))"
      by (simp_all only: of_int_le_iff of_int_less_iff)
    then show ?thesis
      using bl[OF that] by (simp add: pow_nat_powr)
  qed
  have a: "\<bar>real_of_int p / real_of_int q :: real\<bar> = real_of_int P / real_of_int q"
    using assms(2) by (simp add: P_def)
  have qpos: "(0::real) < real_of_int q" using assms(2) by simp
  have up: "real_of_int P / real_of_int q < 2 powr real_of_int (b + 1)"
  proof -
    have "real_of_int P < 2 powr real_of_int (bitlen P)" using bnd[OF P] by simp
    also have "\<dots> = 2 powr real_of_int (b + 1) * 2 powr real_of_int (bitlen q - 1)"
      by (simp add: b_def powr_add[symmetric])
    also have "\<dots> \<le> 2 powr real_of_int (b + 1) * real_of_int q"
      using bnd[OF assms(2)] by (intro mult_left_mono) simp_all
    finally show ?thesis using qpos by (simp add: field_simps)
  qed
  have low: "2 powr real_of_int (b - 1) \<le> real_of_int P / real_of_int q"
  proof -
    have "2 powr real_of_int (b - 1) * real_of_int q \<le> 2 powr real_of_int (b - 1) * 2 powr real_of_int (bitlen q)"
      using bnd[OF assms(2)] by (intro mult_left_mono) simp_all
    also have "\<dots> = 2 powr real_of_int (bitlen P - 1)"
      by (simp add: b_def powr_add[symmetric])
    also have "\<dots> \<le> real_of_int P" using bnd[OF P] by simp
    finally show ?thesis using qpos by (simp add: field_simps)
  qed
  obtain N D where s: "shift P q (- b) = (N, D)" by (cases "shift P q (- b)")
  from shift_value[OF assms(2) s]
  have D: "0 < D" and v: "real_of_int N / real_of_int D = (real_of_int P / real_of_int q) * 2 powr real_of_int (- b)"
    by simp_all
  have L: "floorLog2 p q = (if D \<le> N then b else b - 1)"
    using s by (simp add: floorLog2_def P_def b_def Let_def)
  have test: "D \<le> N \<longleftrightarrow> 2 powr real_of_int b \<le> real_of_int P / real_of_int q"
  proof -
    have "D \<le> N \<longleftrightarrow> 1 \<le> real_of_int N / real_of_int D"
      using D by simp
    also have "\<dots> \<longleftrightarrow> 1 * 2 powr real_of_int b \<le> (real_of_int P / real_of_int q) * 2 powr real_of_int (- b) * 2 powr real_of_int b"
      unfolding v by (simp only: mult_le_cancel_right_pos[of "2 powr real_of_int b", OF powr_gt_zero[THEN iffD2]])
    also have "(real_of_int P / real_of_int q) * 2 powr real_of_int (- b) * 2 powr real_of_int b = real_of_int P / real_of_int q"
      by (simp add: powr_minus_divide)
    finally show ?thesis by simp
  qed
  show "2 powr real_of_int (floorLog2 p q) \<le> \<bar>real_of_int p / real_of_int q\<bar>"
    unfolding a L using test low by auto
  show "\<bar>real_of_int p / real_of_int q :: real\<bar> < 2 powr real_of_int (floorLog2 p q + 1)"
    unfolding a L using test up by auto
qed

lemma round64_half_ulp:
  assumes "p \<noteq> 0" "0 < q" "round64 p q x = Finite n e"
  shows "e = max (floorLog2 p q + x - 52) (- 1074)"
    and "\<bar>value64 n e - (real_of_int p / real_of_int q) * 2 powr real_of_int x\<bar> \<le> 2 powr real_of_int e / 2"
proof -
  let ?e = "max (floorLog2 p q + x - 52) (- 1074)"
  obtain N D where s: "shift p q (x - ?e) = (N, D)" by (cases "shift p q (x - ?e)")
  from assms(1,3) s have r: "n = roundHalfEven N D" "e = ?e"
    by (auto simp: round64_def Let_def split: if_splits)
  show "e = ?e" by (rule r)
  from shift_value[OF assms(2) s]
  have D: "0 < D"
    and v: "real_of_int N / real_of_int D = (real_of_int p / real_of_int q) * 2 powr real_of_int (x - e)"
    by (simp_all add: r)
  have "\<bar>real_of_int n - real_of_int N / real_of_int D\<bar> \<le> (1 / 2 :: real)"
    unfolding r(1) by (rule roundHalfEven_nearest[OF D])
  then have "\<bar>real_of_int n - real_of_int N / real_of_int D\<bar> * 2 powr real_of_int e \<le> (1 / 2) * 2 powr real_of_int e"
    by (intro mult_right_mono) simp_all
  moreover have "\<bar>real_of_int n - real_of_int N / real_of_int D\<bar> * 2 powr real_of_int e
      = \<bar>value64 n e - (real_of_int p / real_of_int q) * 2 powr real_of_int x\<bar>"
  proof -
    have "(2::real) powr real_of_int (x - e) * 2 powr real_of_int e = 2 powr real_of_int x"
      by (simp add: powr_add[symmetric])
    then have "(real_of_int n - real_of_int N / real_of_int D) * 2 powr real_of_int e
        = value64 n e - (real_of_int p / real_of_int q) * 2 powr real_of_int x"
      by (simp add: v value64_def algebra_simps)
    moreover have "\<bar>real_of_int n - real_of_int N / real_of_int D\<bar> * 2 powr real_of_int e
        = \<bar>(real_of_int n - real_of_int N / real_of_int D) * 2 powr real_of_int e\<bar>"
      by (simp add: abs_mult)
    ultimately show ?thesis by simp
  qed
  ultimately show "\<bar>value64 n e - (real_of_int p / real_of_int q) * 2 powr real_of_int x\<bar> \<le> 2 powr real_of_int e / 2"
    by simp
qed


lemma round64_range:
  assumes "p \<noteq> 0" "0 < q" "round64 p q x = Finite n e"
  shows "\<bar>n\<bar> \<le> 2 ^ 53" and "- 1074 \<le> e" and "bitlen \<bar>n\<bar> + e \<le> 1024"
proof -
  define v where "v = (real_of_int p / real_of_int q) * 2 powr real_of_int x"
  have e: "e = max (floorLog2 p q + x - 52) (- 1074)"
    by (rule round64_half_ulp(1)[OF assms])
  then show "- 1074 \<le> e" by simp
  show "bitlen \<bar>n\<bar> + e \<le> 1024"
    using assms(1,3) by (auto simp: round64_def Let_def split: if_splits prod.splits)
  have "\<bar>v\<bar> = \<bar>real_of_int p / real_of_int q\<bar> * 2 powr real_of_int x"
    unfolding v_def by (simp only: abs_mult) simp
  also have "\<dots> < 2 powr real_of_int (floorLog2 p q + 1) * 2 powr real_of_int x"
    using floorLog2_bounds(2)[OF assms(1,2)] by (intro mult_strict_right_mono) simp_all
  also have "\<dots> = 2 powr real_of_int (floorLog2 p q + x - 52 - e) * 2 powr real_of_int (53 + e)"
    by (simp add: powr_add[symmetric] algebra_simps)
  also have "\<dots> \<le> 1 * 2 powr real_of_int (53 + e)"
  proof (intro mult_right_mono)
    have "real_of_int (floorLog2 p q + x - 52 - e) \<le> 0" using e by simp
    then show "2 powr real_of_int (floorLog2 p q + x - 52 - e) \<le> (1::real)"
      using powr_mono[of "real_of_int (floorLog2 p q + x - 52 - e)" 0 2] by simp
  qed simp
  finally have v: "\<bar>v\<bar> < 2 powr real_of_int (53 + e)" by simp
  have pw: "2 powr real_of_int (53 + e) = real_of_int (2 ^ 53) * 2 powr real_of_int e"
    by (simp add: powr_add)
  have half: "\<bar>value64 n e - v\<bar> \<le> 2 powr real_of_int e / 2"
    unfolding v_def by (rule round64_half_ulp(2)[OF assms])
  have "\<bar>value64 n e\<bar> \<le> \<bar>value64 n e - v\<bar> + \<bar>v\<bar>" by linarith
  also have "\<dots> < 2 powr real_of_int e / 2 + 2 powr real_of_int (53 + e)"
    using half v by linarith
  also have "\<dots> = (1 / 2 + real_of_int (2 ^ 53)) * 2 powr real_of_int e"
    unfolding pw by (simp add: algebra_simps)
  finally have "\<bar>real_of_int n\<bar> * 2 powr real_of_int e
      < (1 / 2 + real_of_int (2 ^ 53)) * 2 powr real_of_int e"
    by (simp add: value64_def abs_mult)
  then have "\<bar>real_of_int n\<bar> < 1 / 2 + real_of_int (2 ^ 53)"
    by (simp only: mult_less_cancel_right_pos[OF powr_gt_zero[THEN iffD2]])
  then have "real_of_int \<bar>n\<bar> < real_of_int (2 ^ 53) + 1 / 2" by simp
  then show "\<bar>n\<bar> \<le> 2 ^ 53" by linarith
qed


section \<open>Workout and nutrition recommendations\<close>

lemma workout_follows_rules:
  "fitnessGoals userProfile = Some goals \<Longrightarrow>
   generateWorkoutRecommendations userProfile currentProgress
     = Inr (spec_workoutRules (progressList currentProgress) goals)"
  by (simp add: generateWorkoutRecommendations_def spec_workoutRules_def progressList_def
        push_def array_includes_def split: option.splits list.splits)

lemma nutrition_follows_rules:
  "preferences userProfile = Some prefs \<Longrightarrow>
   generateNutritionRecommendations userProfile currentProgress
     = Inr (spec_nutritionRules (progressList currentProgress) (restrictionList prefs))"
  by (simp add: generateNutritionRecommendations_def spec_nutritionRules_def progressList_def
        restrictionList_def push_def array_includes_def split: option.splits list.splits)

text \<open>
  Claim C5. For a profile with goals \<open>goals\<close> and any progress list (an absent list
  counts as empty), generateWorkoutRecommendations returns, in this order: the
  motivation recommendation exactly when the list is non-empty and the
  \<^verbatim>\<open>workoutCompleted\<close> of its first entry is \<^verbatim>\<open>false\<close>; the cardio recommendation
  exactly when \<^verbatim>\<open>weight_loss\<close> is a goal; the strength recommendation exactly when
  \<^verbatim>\<open>muscle_gain\<close> is a goal. The rules fire independently, and with no progress and
  neither goal the result is empty.
\<close>

theorem workout_rules:
  assumes "fitnessGoals userProfile = Some goals"
  shows "\<exists>recs. generateWorkoutRecommendations userProfile currentProgress = Inr recs
     \<and> recs = (if progressList currentProgress \<noteq> []
                  \<and> workoutCompleted (hd (progressList currentProgress)) = Some False
               then [motivationRec] else [])
            @ (if ''weight_loss'' \<in> set goals then [cardioRec] else [])
            @ (if ''muscle_gain'' \<in> set goals then [strengthRec] else [])
     \<and> (''motivation'' \<in> set (map rtype recs) \<longleftrightarrow>
          progressList currentProgress \<noteq> []
          \<and> workoutCompleted (hd (progressList currentProgress)) = Some False)
     \<and> (''cardio'' \<in> set (map rtype recs) \<longleftrightarrow> ''weight_loss'' \<in> set goals)
     \<and> (''strength'' \<in> set (map rtype recs) \<longleftrightarrow> ''muscle_gain'' \<in> set goals)
     \<and> (progressList currentProgress = [] \<and> ''weight_loss'' \<notin> set goals
          \<and> ''muscle_gain'' \<notin> set goals \<longrightarrow> recs = [])"
  by (auto simp: workout_follows_rules[OF assms] spec_workoutRules_def
        motivationRec_def cardioRec_def strengthRec_def)

theorem workout_rules_witness:
  "fitnessGoals john = Some [''weight_loss'', ''muscle_gain'']
   \<and> generateWorkoutRecommendations john (Some [overate])
       = Inr [motivationRec, cardioRec, strengthRec]
   \<and> fitnessGoals jane = Some [''endurance'', ''strength'']
   \<and> generateWorkoutRecommendations jane None = Inr []"
proof -
  have j: "fitnessGoals john = Some [''weight_loss'', ''muscle_gain'']"
    by (simp add: john_def)
  have k: "fitnessGoals jane = Some [''endurance'', ''strength'']"
    by (simp add: jane_def)
  show ?thesis
    using j k workout_rules[OF j, of "Some [overate]"] workout_rules[OF k, of None]
    by (simp add: progressList_def overate_def)
qed



text \<open>
  Claim C4, as the code has it. getPersonalizedRecommendations completes exactly when
  the profile has both \<^verbatim>\<open>fitnessGoals\<close> and \<^verbatim>\<open>preferences\<close>. Then an absent progress
  list is treated as an empty one and an absent \<^verbatim>\<open>preferences.dietaryRestrictions\<close> as
  no restrictions, so the rules that read them emit nothing. When \<^verbatim>\<open>fitnessGoals\<close> or
  \<^verbatim>\<open>preferences\<close> is absent the call fails with the one generic error.
\<close>

theorem recommendations_missing_collections:
  "getPersonalizedRecommendations userProfile currentProgress =
     (case (fitnessGoals userProfile, preferences userProfile) of
        (Some goals, Some prefs) \<Rightarrow>
          Inr \<lparr>workout = spec_workoutRules (progressList currentProgress) goals,
               nutrition =
                 spec_nutritionRules (progressList currentProgress) (restrictionList prefs),
               lifestyle = [sleepRec, hydrationRec]\<rparr>
      | _ \<Rightarrow> Inl (Error ''Failed to generate AI recommendations''))"
proof (cases "fitnessGoals userProfile")
  case None
  then show ?thesis
    by (simp add: getPersonalizedRecommendations_def generateWorkoutRecommendations_def)
next
  case goals: (Some goals)
  show ?thesis
  proof (cases "preferences userProfile")
    case None
    then show ?thesis
      using goals
      by (simp add: getPersonalizedRecommendations_def workout_follows_rules
            generateNutritionRecommendations_def)
  next
    case (Some prefs)
    then show ?thesis
      using goals
      by (simp add: getPersonalizedRecommendations_def workout_follows_rules
            nutrition_follows_rules generateLifestyleRecommendations_def push_def)
  qed
qed

theorem recommendations_missing_collections_witness:
  "getPersonalizedRecommendations
     (jane\<lparr>preferences := Some \<lparr>dietaryRestrictions = None, cuisinePreferences = None\<rparr>\<rparr>) None
     = Inr \<lparr>workout = [], nutrition = [], lifestyle = [sleepRec, hydrationRec]\<rparr>
   \<and> getPersonalizedRecommendations (jane\<lparr>preferences := None\<rparr>) (Some [])
       = Inl (Error ''Failed to generate AI recommendations'')"
  using recommendations_missing_collections
          [of "jane\<lparr>preferences := Some \<lparr>dietaryRestrictions = None,
                                          cuisinePreferences = None\<rparr>\<rparr>" None]
        recommendations_missing_collections [of "jane\<lparr>preferences := None\<rparr>" "Some []"]
  by (simp add: jane_def spec_workoutRules_def spec_nutritionRules_def progressList_def
        restrictionList_def)

theorem missing_fitnessGoals_counterexample:
  "getPersonalizedRecommendations (john\<lparr>fitnessGoals := None\<rparr>) (Some [])
     = Inl (Error ''Failed to generate AI recommendations'')"
  by (simp add: getPersonalizedRecommendations_def generateWorkoutRecommendations_def john_def)


section \<open>Properties of the meal plan\<close>

lemma keepMeal_spec: "keepMeal restrictions = spec_keep restrictions"
  by (auto simp: keepMeal_def spec_keep_def array_includes_def fun_eq_iff)

lemma calculateNutritionNeeds_returns:
  "fitnessGoals userProfile = Some goals \<Longrightarrow> \<exists>t. calculateNutritionNeeds userProfile = Inr t"
  by (simp add: calculateNutritionNeeds_def Let_def)

lemma calculateNutritionNeeds_throws:
  "fitnessGoals userProfile = None \<Longrightarrow> calculateNutritionNeeds userProfile = Inl TypeError"
  by (simp add: calculateNutritionNeeds_def Let_def)

text \<open>Assigning fresh keys one after the other builds the object in visiting order.\<close>

lemma forEach_assign:
  "distinct (map fst db) \<Longrightarrow> set (map fst db) \<inter> set (map fst acc) = {} \<Longrightarrow>
   foldl (\<lambda>filteredMeals (mealType, meals). AList.update mealType (f meals) filteredMeals) acc db
     = acc @ map (\<lambda>(mealType, meals). (mealType, f meals)) db"
proof (induction db arbitrary: acc)
  case Nil
  then show ?case by simp
next
  case (Cons a db)
  obtain k v where a: "a = (k, v)" by (cases a)
  have fresh: "AList.update k (f v) acc = acc @ [(k, f v)]"
    using Cons.prems(2) unfolding a
    by (induction acc) auto
  have "foldl (\<lambda>filteredMeals (mealType, meals). AList.update mealType (f meals) filteredMeals)
          (acc @ [(k, f v)]) db
        = (acc @ [(k, f v)]) @ map (\<lambda>(mealType, meals). (mealType, f meals)) db"
    using Cons.prems unfolding a by (intro Cons.IH) auto
  then show ?case by (simp add: a fresh)
qed

lemma mealPlan_filtered:
  assumes "fitnessGoals userProfile = Some goals"
  shows "generateMealPlan userProfile preferencesArg
     = Inr (map (\<lambda>(mealType, meals).
                  (mealType, filter (spec_keep (requested preferencesArg)) meals)) mealDatabase)"
proof -
  obtain t where t: "calculateNutritionNeeds userProfile = Inr t"
    using calculateNutritionNeeds_returns[OF assms] by blast
  have d: "distinct (map fst mealDatabase)"
    by (simp add: mealDatabase_def)
  have "foldl (\<lambda>filteredMeals (mealType, meals).
                 AList.update mealType (filter (spec_keep rs) meals) filteredMeals) [] mealDatabase
        = map (\<lambda>(mealType, meals). (mealType, filter (spec_keep rs) meals)) mealDatabase" for rs
    using forEach_assign[OF d, of "[]" "filter (spec_keep rs)"] by simp
  then show ?thesis
    by (simp add: generateMealPlan_def t keepMeal_spec requested_def restrictionList_def
          split: option.splits)
qed

text \<open>
  Claim C8. When the energy needs can be computed (the profile has fitnessGoals),
  generateMealPlan returns, for the slots breakfast, lunch and dinner in this order, the
  catalogue meals of the slot, in catalogue order, that satisfy: not (\<^verbatim>\<open>vegan\<close> is
  requested and the meal's vegan flag is false) and not (\<^verbatim>\<open>gluten_free\<close> is
  requested and the meal's glutenFree flag is false). With no restriction requested the
  plan is the whole catalogue; with \<^verbatim>\<open>vegan\<close> requested every returned meal is vegan.
\<close>

theorem mealPlan_filter:
  assumes "fitnessGoals userProfile = Some goals"
  shows "\<exists>plan. generateMealPlan userProfile preferencesArg = Inr plan
     \<and> plan = map (\<lambda>(mealType, meals).
                 (mealType, filter (spec_keep (requested preferencesArg)) meals)) mealDatabase
     \<and> map fst plan = [''breakfast'', ''lunch'', ''dinner'']
     \<and> (requested preferencesArg = [] \<longrightarrow> plan = mealDatabase)
     \<and> (''vegan'' \<in> set (requested preferencesArg) \<longrightarrow>
          (\<forall>(mealType, meals) \<in> set plan. \<forall>meal \<in> set meals. vegan meal))"
proof -
  let ?plan = "map (\<lambda>(mealType, meals).
                 (mealType, filter (spec_keep (requested preferencesArg)) meals)) mealDatabase"
  have slots: "map fst ?plan = [''breakfast'', ''lunch'', ''dinner'']"
    by (simp add: mealDatabase_def)
  have none: "requested preferencesArg = [] \<longrightarrow> ?plan = mealDatabase"
    by (simp add: spec_keep_def mealDatabase_def)
  have vegan: "''vegan'' \<in> set (requested preferencesArg) \<longrightarrow>
          (\<forall>(mealType, meals) \<in> set ?plan. \<forall>meal \<in> set meals. vegan meal)"
    by (auto simp: spec_keep_def)
  show ?thesis
    by (intro exI[of _ ?plan] conjI mealPlan_filtered[OF assms] refl slots none vegan)
qed

theorem mealPlan_filter_witness:
  "fitnessGoals john = Some [''weight_loss'', ''muscle_gain'']
   \<and> generateMealPlan john
        (Some \<lparr>dietaryRestrictions = Some [''vegan''], cuisinePreferences = None\<rparr>)
       = Inr [(''breakfast'', []),
              (''lunch'', [\<lparr>name = ''Quinoa Buddha Bowl'', calories = 420, mealProtein = 18,
                             mealCarbs = 52, mealFats = 16,
                             ingredients = [''quinoa'', ''chickpeas'', ''vegetables'', ''tahini''],
                             prepTime = 20, vegan = True, glutenFree = True\<rparr>]),
              (''dinner'', [])]
   \<and> generateMealPlan john None = Inr mealDatabase"
proof -
  have j: "fitnessGoals john = Some [''weight_loss'', ''muscle_gain'']"
    by (simp add: john_def)
  show ?thesis
    using j
      mealPlan_filter[OF j, of "Some \<lparr>dietaryRestrictions = Some [''vegan''],
                                       cuisinePreferences = None\<rparr>"]
      mealPlan_filter[OF j, of None]
    by (simp add: requested_def restrictionList_def spec_keep_def mealDatabase_def)
qed

text \<open>
  Claim C9. For every profile, two preferences values that agree on
  \<^verbatim>\<open>dietaryRestrictions\<close>, whatever their \<^verbatim>\<open>cuisinePreferences\<close>, give the same result
  of generateMealPlan: the same plan, or the same failure.
\<close>

theorem mealPlan_ignores_cuisinePreferences:
  "dietaryRestrictions prefs = dietaryRestrictions prefs' \<Longrightarrow>
   generateMealPlan userProfile (Some prefs) = generateMealPlan userProfile (Some prefs')"
  by (simp add: generateMealPlan_def split: sum.splits)

theorem mealPlan_ignores_cuisinePreferences_witness:
  "dietaryRestrictions \<lparr>dietaryRestrictions = Some [''vegan''],
                        cuisinePreferences = Some [''italian'']\<rparr>
     = dietaryRestrictions \<lparr>dietaryRestrictions = Some [''vegan''], cuisinePreferences = None\<rparr>
   \<and> generateMealPlan jane
        (Some \<lparr>dietaryRestrictions = Some [''vegan''], cuisinePreferences = Some [''italian'']\<rparr>)
     = generateMealPlan jane
        (Some \<lparr>dietaryRestrictions = Some [''vegan''], cuisinePreferences = None\<rparr>)"
proof -
  have h: "dietaryRestrictions \<lparr>dietaryRestrictions = Some [''vegan''],
                                cuisinePreferences = Some [''italian'']\<rparr>
     = dietaryRestrictions \<lparr>dietaryRestrictions = Some [''vegan''], cuisinePreferences = None\<rparr>"
    by simp
  show ?thesis
    using h mealPlan_ignores_cuisinePreferences[OF h, of jane] by simp
qed

text \<open>
  Claim C10. generateMealPlan computes the energy needs before it filters anything. For a
  profile without \<^verbatim>\<open>fitnessGoals\<close> calculateNutritionNeeds throws a TypeError at the
  membership test, and so the whole call fails with it. The plan itself never depends
  on the computed targets: any two profiles that have \<^verbatim>\<open>fitnessGoals\<close> get the same
  plan for the same preferences.
\<close>

theorem mealPlan_fails_without_fitnessGoals:
  assumes "fitnessGoals userProfile = None"
      and "fitnessGoals p = Some goals" and "fitnessGoals p' = Some goals'"
  shows "calculateNutritionNeeds userProfile = Inl TypeError
     \<and> generateMealPlan userProfile preferencesArg = Inl TypeError
     \<and> generateMealPlan p preferencesArg = generateMealPlan p' preferencesArg"
proof -
  have "generateMealPlan userProfile preferencesArg = Inl TypeError"
    by (simp add: generateMealPlan_def calculateNutritionNeeds_throws[OF assms(1)])
  moreover have "generateMealPlan p preferencesArg = generateMealPlan p' preferencesArg"
    by (simp add: mealPlan_filtered[OF assms(2)] mealPlan_filtered[OF assms(3)])
  ultimately show ?thesis
    by (simp add: calculateNutritionNeeds_throws[OF assms(1)])
qed

theorem mealPlan_fails_without_fitnessGoals_witness:
  "fitnessGoals (john\<lparr>fitnessGoals := None\<rparr>) = None
   \<and> generateMealPlan (john\<lparr>fitnessGoals := None\<rparr>) None = Inl TypeError
   \<and> generateMealPlan john None = generateMealPlan jane None"
proof -
  have a: "fitnessGoals (john\<lparr>fitnessGoals := None\<rparr>) = None"
    by simp
  have b: "fitnessGoals john = Some [''weight_loss'', ''muscle_gain'']"
    by (simp add: john_def)
  have c: "fitnessGoals jane = Some [''endurance'', ''strength'']"
    by (simp add: jane_def)
  show ?thesis
    using a mealPlan_fails_without_fitnessGoals[OF a b c, of None] by simp
qed


section \<open>Properties of the energy needs\<close>

lemma activity_factor_lookup:
  "propertyKey level \<notin> set objectPrototypeMembers \<Longrightarrow>
   times b (orElse (activityFactors (propertyKey level)) 1.2)
     = Some (b * spec_activityFactor level)"
  by (cases level)
     (auto simp: propertyKey_def activityFactors_def orElse_def spec_activityFactor_def times_def)

text \<open>
  Away from the keys that an object literal inherits, the code computes the documented
  algorithm: the Harris-Benedict rate, times the activity factor (1.2 for an absent or
  unknown level), adjusted by the first matching goal, each output rounded on its own.
\<close>

lemma calculateNutritionNeeds_reference:
  assumes "fitnessGoals p = Some goals"
      and "propertyKey (activityLevel p) \<notin> set objectPrototypeMembers"
  shows "calculateNutritionNeeds p =
     Inr \<lparr>dailyCalories = Some (roundHalfUp (spec_targetCalories p goals)),
          macros = \<lparr>protein = Some (roundHalfUp (spec_targetCalories p goals * 0.25 / 4)),
                    carbs = Some (roundHalfUp (spec_targetCalories p goals * 0.45 / 4)),
                    fats = Some (roundHalfUp (spec_targetCalories p goals * 0.30 / 9))\<rparr>\<rparr>"
  unfolding calculateNutritionNeeds_def activity_factor_lookup[OF assms(2)]
  using assms(1)
  by (simp add: Math_round_def spec_targetCalories_def spec_bmr_def array_includes_def Let_def)

lemma roundHalfUp_nearest: "\<bar>of_int (roundHalfUp x) - x\<bar> \<le> 1 / 2"
  unfolding roundHalfUp_def by linarith

lemma range_key:
  "inDocumentedRanges p \<Longrightarrow> propertyKey (activityLevel p) \<notin> set objectPrototypeMembers"
  by (auto simp: inDocumentedRanges_def propertyKey_def objectPrototypeMembers_def)

lemma factor_bounds:
  "inDocumentedRanges p \<Longrightarrow>
   1.2 \<le> spec_activityFactor (activityLevel p) \<and> spec_activityFactor (activityLevel p) \<le> 1.725"
  by (auto simp: inDocumentedRanges_def spec_activityFactor_def)

lemma bmr_lower: "inDocumentedRanges p \<Longrightarrow> 288.932 \<le> spec_bmr p"
  by (auto simp: inDocumentedRanges_def spec_bmr_def)

lemma bmr_lower_not_male:
  "inDocumentedRanges p \<Longrightarrow> gender p \<noteq> Some ''male'' \<Longrightarrow> 515.203 \<le> spec_bmr p"
  by (auto simp: inDocumentedRanges_def spec_bmr_def)

lemma tdee_lower:
  assumes "inDocumentedRanges p"
  shows "346.7184 \<le> spec_bmr p * spec_activityFactor (activityLevel p)"
proof -
  have "288.932 * 1.2 \<le> spec_bmr p * spec_activityFactor (activityLevel p)"
    using bmr_lower[OF assms] factor_bounds[OF assms]
    by (intro mult_mono) auto
  then show ?thesis by simp
qed

lemma tdee_lower_not_male:
  assumes "inDocumentedRanges p" "gender p \<noteq> Some ''male''"
  shows "618.2436 \<le> spec_bmr p * spec_activityFactor (activityLevel p)"
proof -
  have "515.203 * 1.2 \<le> spec_bmr p * spec_activityFactor (activityLevel p)"
    using bmr_lower_not_male[OF assms] factor_bounds[OF assms(1)]
    by (intro mult_mono) auto
  then show ?thesis by simp
qed

lemma target_lower:
  assumes "inDocumentedRanges p"
  shows "-153.2816 \<le> spec_targetCalories p goals"
  using tdee_lower[OF assms] by (simp add: spec_targetCalories_def Let_def)

lemma target_positive:
  assumes "inDocumentedRanges p"
      and "gender p \<noteq> Some ''male'' \<or> ''weight_loss'' \<notin> set goals"
  shows "118 \<le> spec_targetCalories p goals"
proof (cases "gender p = Some ''male''")
  case True
  then show ?thesis
    using assms(2) tdee_lower[OF assms(1)] by (simp add: spec_targetCalories_def Let_def)
next
  case False
  then show ?thesis
    using tdee_lower_not_male[OF assms(1) False] by (simp add: spec_targetCalories_def Let_def)
qed

lemma roundHalfUp_mono: "x \<le> y \<Longrightarrow> roundHalfUp x \<le> roundHalfUp y"
  unfolding roundHalfUp_def by (intro floor_mono) simp

lemma roundHalfUp_int: "roundHalfUp (of_int n) = n"
  unfolding roundHalfUp_def by linarith

lemma roundHalfUp_pos: "1 \<le> x \<Longrightarrow> 0 < roundHalfUp x"
  using roundHalfUp_mono[of 1 x] roundHalfUp_int[of 1] by simp

lemma roundHalfUp_nonneg: "0 \<le> x \<Longrightarrow> 0 \<le> roundHalfUp x"
  using roundHalfUp_mono[of 0 x] roundHalfUp_int[of 0] by simp

lemma roundHalfUp_lower: "-153.2816 \<le> x \<Longrightarrow> -153 \<le> roundHalfUp x"
  unfolding roundHalfUp_def by (simp add: le_floor_iff)

text \<open>
  Claim C1, at an input where the code leaves the documented algorithm. The activity
  level \<^verbatim>\<open>constructor\<close> is not one of the four, so the documented factor is 1.2 and the
  documented daily calories for the first seed profile are 1629. The code finds the
  inherited member \<^verbatim>\<open>Object.prototype.constructor\<close>, the fallback \<^verbatim>\<open>|| 1.2\<close> does not
  apply, and all four outputs are \<^verbatim>\<open>NaN\<close>.
\<close>

theorem calculateNutritionNeeds_inherited_key:
  "calculateNutritionNeeds (john\<lparr>activityLevel := Some ''constructor''\<rparr>)
     = Inr \<lparr>dailyCalories = None, macros = \<lparr>protein = None, carbs = None, fats = None\<rparr>\<rparr>
   \<and> roundHalfUp (spec_targetCalories (john\<lparr>activityLevel := Some ''constructor''\<rparr>)
        [''weight_loss'', ''muscle_gain'']) = 1629"
proof -
  have "calculateNutritionNeeds (john\<lparr>activityLevel := Some ''constructor''\<rparr>)
     = Inr \<lparr>dailyCalories = None, macros = \<lparr>protein = None, carbs = None, fats = None\<rparr>\<rparr>"
    by (simp add: john_def calculateNutritionNeeds_def activityFactors_def propertyKey_def
          orElse_def times_def array_includes_def Math_round_def objectPrototypeMembers_def)
  moreover have "roundHalfUp (spec_targetCalories (john\<lparr>activityLevel := Some ''constructor''\<rparr>)
        [''weight_loss'', ''muscle_gain'']) = 1629"
    by (simp add: john_def spec_targetCalories_def spec_bmr_def spec_activityFactor_def
          roundHalfUp_def)
  ultimately show ?thesis by simp
qed

text \<open>
  Claim C2, as the code has it. For every profile within the documented ranges, with a
  gender among male, female and other, one of the four activity levels and any
  fitnessGoals, dailyCalories is an integer, never below -153; it is positive whenever
  the gender is not male or \<^verbatim>\<open>weight_loss\<close> is not among the goals.
\<close>

theorem dailyCalories_integer_positive:
  assumes "inDocumentedRanges p" and "fitnessGoals p = Some goals"
  shows "\<exists>t d. calculateNutritionNeeds p = Inr t \<and> dailyCalories t = Some d
     \<and> -153 \<le> d
     \<and> (gender p \<noteq> Some ''male'' \<or> ''weight_loss'' \<notin> set goals \<longrightarrow> 0 < d)"
proof -
  let ?d = "roundHalfUp (spec_targetCalories p goals)"
  have low: "-153 \<le> ?d"
    by (rule roundHalfUp_lower[OF target_lower[OF assms(1)]])
  have pos: "0 < ?d" if "gender p \<noteq> Some ''male'' \<or> ''weight_loss'' \<notin> set goals"
    using target_positive[OF assms(1) that] by (intro roundHalfUp_pos) simp
  show ?thesis
    using calculateNutritionNeeds_reference[OF assms(2) range_key[OF assms(1)]] low pos
    by auto
qed

theorem dailyCalories_integer_positive_witness:
  "inDocumentedRanges jane \<and> fitnessGoals jane = Some [''endurance'', ''strength'']
   \<and> gender jane \<noteq> Some ''male''
   \<and> (\<exists>t d. calculateNutritionNeeds jane = Inr t \<and> dailyCalories t = Some d \<and> 0 < d)"
proof -
  have r: "inDocumentedRanges jane"
    by (simp add: inDocumentedRanges_def jane_def)
  have g: "fitnessGoals jane = Some [''endurance'', ''strength'']"
    by (simp add: jane_def)
  have f: "gender jane \<noteq> Some ''male''"
    by (simp add: jane_def)
  show ?thesis
    using r g f dailyCalories_integer_positive[OF r g] by blast
qed

theorem dailyCalories_positive_counterexample:
  "inDocumentedRanges lightest
   \<and> calculateNutritionNeeds lightest
       = Inr \<lparr>dailyCalories = Some (- 153),
              macros = \<lparr>protein = Some (- 10), carbs = Some (- 17), fats = Some (- 5)\<rparr>\<rparr>
   \<and> \<not> (0 < (- 153 :: int))"
  by (simp add: inDocumentedRanges_def lightest_def calculateNutritionNeeds_def
        activityFactors_def propertyKey_def orElse_def times_def array_includes_def
        Math_round_def roundHalfUp_def)


subsection \<open>Macro grams against daily calories\<close>

lemma kcalGap_period: "kcalGap (m + 4320 * q) = kcalGap m"
proof -
  have "m + 4320 * q + 144 = (m + 144) + (15 * q) * 288"
       "m + 4320 * q + 80 = (m + 80) + (27 * q) * 160"
       "m + 4320 * q + 270 = (m + 270) + (8 * q) * 540"
       "m + 4320 * q + 9 = (m + 9) + (240 * q) * 18"
    by simp_all
  then show ?thesis
    unfolding kcalGap_def by (simp only: div_mult_self1) simp
qed

lemma div_lower:
  fixes a n :: int
  assumes "0 < n"
  shows "n * (a div n) \<le> a"
proof -
  have "0 \<le> a mod n" using assms by simp
  moreover have "n * (a div n) + a mod n = a" by simp
  ultimately show ?thesis by linarith
qed

lemma div_const:
  fixes lo m c n :: int
  assumes "0 < n" "lo \<le> m" "m < n * ((lo + c) div n + 1) - c"
  shows "(m + c) div n = (lo + c) div n"
proof (rule int_div_pos_eq[where r = "m + c - n * ((lo + c) div n)"])
  have d: "n * ((lo + c) div n + 1) = n * ((lo + c) div n) + n"
    by (simp add: algebra_simps)
  show "m + c = n * ((lo + c) div n) + (m + c - n * ((lo + c) div n))"
    by simp
  show "0 \<le> m + c - n * ((lo + c) div n)"
    using div_lower[OF assms(1), of "lo + c"] assms(2) by linarith
  show "m + c - n * ((lo + c) div n) < n"
    using assms(3) d by linarith
qed

lemma kcalGap_const: "lo \<le> m \<Longrightarrow> m < nextBreak lo \<Longrightarrow> kcalGap m = kcalGap lo"
  unfolding kcalGap_def nextBreak_def
  by (simp add: div_const[of 288] div_const[of 160] div_const[of 540] div_const[of 18])

lemma scan_sound: "scan lo \<Longrightarrow> lo \<le> m \<Longrightarrow> m < 4320 \<Longrightarrow> \<bar>kcalGap m\<bar> \<le> 7"
proof (induction lo rule: scan.induct)
  case (1 lo)
  from "1.prems" have lt: "\<not> 4320 \<le> lo" by simp
  from "1.prems"(1) lt have s: "\<bar>kcalGap lo\<bar> \<le> 7" "scan (nextBreak lo)"
    by (simp_all add: scan.simps[of lo])
  show ?case
  proof (cases "m < nextBreak lo")
    case True
    then show ?thesis using kcalGap_const[OF "1.prems"(2) True] s(1) by simp
  next
    case False
    then show ?thesis using "1.IH"[OF lt s(2)] "1.prems"(3) by simp
  qed
qed

lemma scan_period: "scan 0"
  by code_simp

lemma kcalGap_bound: "\<bar>kcalGap m\<bar> \<le> 7"
proof -
  have "kcalGap m = kcalGap (m mod 4320 + 4320 * (m div 4320))" by simp
  also have "\<dots> = kcalGap (m mod 4320)" by (rule kcalGap_period)
  finally have e: "kcalGap m = kcalGap (m mod 4320)" .
  have "0 \<le> m mod 4320" "m mod 4320 < 4320" by simp_all
  from scan_sound[OF scan_period this] show ?thesis using e by simp
qed

lemma roundHalfUp_quotients:
  "roundHalfUp (t * 0.25 / 4) = (\<lfloor>18 * t\<rfloor> + 144) div 288"
  "roundHalfUp (t * 0.45 / 4) = (\<lfloor>18 * t\<rfloor> + 80) div 160"
  "roundHalfUp (t * 0.30 / 9) = (\<lfloor>18 * t\<rfloor> + 270) div 540"
  "roundHalfUp t = (\<lfloor>18 * t\<rfloor> + 9) div 18"
proof -
  have q: "\<lfloor>(18 * t + of_int c) / of_int n\<rfloor> = (\<lfloor>18 * t\<rfloor> + c) div n" if "0 < n" for c n :: int
    using that floor_divide_real_eq_div[of n "18 * t + of_int c"] by simp
  have e1: "t * 0.25 / 4 + 1 / 2 = (18 * t + of_int 144) / of_int 288" by simp
  have e2: "t * 0.45 / 4 + 1 / 2 = (18 * t + of_int 80) / of_int 160" by simp
  have e3: "t * 0.30 / 9 + 1 / 2 = (18 * t + of_int 270) / of_int 540" by simp
  have e4: "t + 1 / 2 = (18 * t + of_int 9) / of_int 18" by simp
  show "roundHalfUp (t * 0.25 / 4) = (\<lfloor>18 * t\<rfloor> + 144) div 288"
    unfolding roundHalfUp_def e1 by (rule q) simp
  show "roundHalfUp (t * 0.45 / 4) = (\<lfloor>18 * t\<rfloor> + 80) div 160"
    unfolding roundHalfUp_def e2 by (rule q) simp
  show "roundHalfUp (t * 0.30 / 9) = (\<lfloor>18 * t\<rfloor> + 270) div 540"
    unfolding roundHalfUp_def e3 by (rule q) simp
  show "roundHalfUp t = (\<lfloor>18 * t\<rfloor> + 9) div 18"
    unfolding roundHalfUp_def e4 by (rule q) simp
qed

lemma macro_kcal_gap:
  "\<bar>4 * roundHalfUp (t * 0.25 / 4) + 4 * roundHalfUp (t * 0.45 / 4)
     + 9 * roundHalfUp (t * 0.30 / 9) - roundHalfUp t\<bar> \<le> 7"
proof -
  have "4 * roundHalfUp (t * 0.25 / 4) + 4 * roundHalfUp (t * 0.45 / 4)
          + 9 * roundHalfUp (t * 0.30 / 9) - roundHalfUp t = kcalGap \<lfloor>18 * t\<rfloor>"
    unfolding kcalGap_def roundHalfUp_quotients(1)[of t] roundHalfUp_quotients(2)[of t]
      roundHalfUp_quotients(3)[of t]
    by (simp only: roundHalfUp_quotients(4)[of t])
  then show ?thesis
    using kcalGap_bound[of "\<lfloor>18 * t\<rfloor>"] by simp
qed

text \<open>
  Claim C3, as the code has it. For every profile within the documented ranges the
  macro grams are integers, and the energy 4 protein + 4 carbs + 9 fats differs from
  dailyCalories by at most 7 kcal. The grams are non-negative whenever the gender is
  not male or \<^verbatim>\<open>weight_loss\<close> is not among the goals.
\<close>

theorem macros_integer_gap:
  assumes "inDocumentedRanges p" and "fitnessGoals p = Some goals"
  shows "\<exists>t pr cb ft d. calculateNutritionNeeds p = Inr t
     \<and> protein (macros t) = Some pr \<and> carbs (macros t) = Some cb \<and> fats (macros t) = Some ft
     \<and> dailyCalories t = Some d
     \<and> \<bar>4 * pr + 4 * cb + 9 * ft - d\<bar> \<le> 7
     \<and> (gender p \<noteq> Some ''male'' \<or> ''weight_loss'' \<notin> set goals
          \<longrightarrow> 0 \<le> pr \<and> 0 \<le> cb \<and> 0 \<le> ft)"
proof -
  let ?t = "spec_targetCalories p goals"
  have nonneg: "0 \<le> roundHalfUp (?t * 0.25 / 4) \<and> 0 \<le> roundHalfUp (?t * 0.45 / 4)
                \<and> 0 \<le> roundHalfUp (?t * 0.30 / 9)"
    if "gender p \<noteq> Some ''male'' \<or> ''weight_loss'' \<notin> set goals"
  proof -
    have "0 \<le> ?t" using target_positive[OF assms(1) that] by simp
    then show ?thesis by (intro conjI roundHalfUp_nonneg) simp_all
  qed
  show ?thesis
    using calculateNutritionNeeds_reference[OF assms(2) range_key[OF assms(1)]]
      macro_kcal_gap[of ?t] nonneg
    by auto
qed

theorem macros_integer_gap_witness:
  "inDocumentedRanges jane \<and> fitnessGoals jane = Some [''endurance'', ''strength'']
   \<and> gender jane \<noteq> Some ''male''
   \<and> (\<exists>t pr cb ft d. calculateNutritionNeeds jane = Inr t
        \<and> protein (macros t) = Some pr \<and> carbs (macros t) = Some cb
        \<and> fats (macros t) = Some ft \<and> dailyCalories t = Some d
        \<and> \<bar>4 * pr + 4 * cb + 9 * ft - d\<bar> \<le> 7 \<and> 0 \<le> pr \<and> 0 \<le> cb \<and> 0 \<le> ft)"
proof -
  have r: "inDocumentedRanges jane"
    by (simp add: inDocumentedRanges_def jane_def)
  have g: "fitnessGoals jane = Some [''endurance'', ''strength'']"
    by (simp add: jane_def)
  have f: "gender jane \<noteq> Some ''male''"
    by (simp add: jane_def)
  show ?thesis
    using r g f macros_integer_gap[OF r g] by blast
qed

theorem macros_gap_counterexample:
  "inDocumentedRanges frail
   \<and> calculateNutritionNeeds frail
       = Inr \<lparr>dailyCalories = Some (- 102),
              macros = \<lparr>protein = Some (- 6), carbs = Some (- 11), fats = Some (- 3)\<rparr>\<rparr>
   \<and> \<not> (0 \<le> (- 6 :: int))
   \<and> \<not> (\<bar>4 * (- 6) + 4 * (- 11) + 9 * (- 3) - (- 102 :: int)\<bar> \<le> 3)"
  by (simp add: inDocumentedRanges_def frail_def calculateNutritionNeeds_def
        activityFactors_def propertyKey_def orElse_def times_def array_includes_def
        Math_round_def roundHalfUp_def)


end
